theory Spec2Isabelle
  imports Complex_Main
begin

section \<open>Data model\<close>

text \<open>
  The program is a FastAPI application (\<^verbatim>\<open>main.py\<close>) whose handlers run a few SQL
  statements each over a PostgreSQL connection, plus a process-local session dictionary.
  The embedding keeps the handlers' names and their statement order. The relational
  store is an explicit state: one map from primary key to row per table. Everything the
  handlers cannot decide themselves (whether a storage call raises, which key the store
  gives a new row, the clock, the random token) is read from an environment record, so
  that every theorem quantifies over it.
\<close>

subsection \<open>Calendar values\<close>

text \<open>
  \<^verbatim>\<open>datetime.date\<close> and \<^verbatim>\<open>datetime.datetime\<close> by their fields. A datetime's
  \<^verbatim>\<open>tzinfo\<close> is its UTC offset in seconds when it is aware, \<open>None\<close> when naive.
\<close>

record date =
  year :: nat
  month :: nat
  day :: nat

record datetime = date +
  hour :: nat
  minute :: nat
  second :: nat
  microsecond :: nat
  utcoffset :: "int option"

text \<open>
  The session registry only adds a duration to "now" and compares two instants, so its
  naive UTC datetimes are points on a line: microseconds as an integer.
\<close>

type_synonym instant = int

subsection \<open>Rows\<close>

text \<open>
  Columns are those the statements in \<^verbatim>\<open>main.py\<close> name. A column that a handler fills
  from an optional request field is nullable here; whether the store rejects a value is
  the environment's decision (a statement fault), not the model's.
\<close>

record user_row =
  user_id :: int
  user_email :: string
  user_password :: "string option"

record enquiry_row =
  enq_name :: string
  enq_email :: string
  enq_phone :: "string option"
  enq_service :: "string option"
  enq_budget :: string
  enq_timeline :: string
  enq_idea :: string
  enq_description :: string
  enq_reference :: "string option"
  enq_consent :: bool

record quickcontact_row =
  qc_name :: string
  qc_phone :: string
  qc_subject :: "string option"
  qc_message :: "string option"

record active_client_row =
  client_name :: "string option"
  contact_email :: "string option"
  contact_phone :: "string option"
  project_title :: "string option"
  project_description :: "string option"
  delivery_date :: "date option"
  advance_token :: "string option"
  project_manager :: "string option"
  project_reference :: "string option"
  status :: "string option"

record database =
  users :: "user_row list"
  enquiries :: "int \<rightharpoonup> enquiry_row"
  quickcontact :: "int \<rightharpoonup> quickcontact_row"
  active_clients :: "int \<rightharpoonup> active_client_row"

subsection \<open>Request models\<close>

text \<open>\<^verbatim>\<open>class ProjectApproveRequest(BaseModel)\<close>, field by field.\<close>

record ProjectApproveRequest =
  pa_name :: "string option"
  pa_email :: "string option"
  pa_phone :: "string option"
  pa_service :: "string option"
  pa_budget :: "string option"
  pa_timeline :: "string option"
  pa_idea :: "string option"
  pa_description :: "string option"
  pa_reference :: "string option"
  pa_consent :: "bool option"
  pa_submitted_at :: datetime
  pa_delivery_date :: date
  pa_billing_details :: string
  pa_project_title :: string
  pa_project_description :: string
  pa_project_reference :: "string option"
  pa_project_manager :: string

text \<open>\<^verbatim>\<open>class QuickContactApproveRequest(BaseModel)\<close>.\<close>

record QuickContactApproveRequest =
  qa_name :: "string option"
  qa_phone :: "string option"
  qa_project_title :: string
  qa_project_description :: string
  qa_delivery_date :: date
  qa_billing_details :: string
  qa_project_manager :: string
  qa_reference :: "string option"

text \<open>\<^verbatim>\<open>class LoginRequest\<close> and \<^verbatim>\<open>class SessionValidationRequest\<close>.\<close>

record LoginRequest =
  login_email :: string
  login_password :: string

record SessionValidationRequest =
  sv_email :: string
  sv_session_id :: string

subsection \<open>Exceptions and responses\<close>

text \<open>
  Two kinds of exception reach a handler's \<^verbatim>\<open>except\<close> clauses: the
  \<^verbatim>\<open>HTTPException(status_code, detail)\<close> it raises itself, and whatever the storage
  layer raises (carried with its message, which the handlers paste into the detail).
  A returned dictionary is a JSON object with the route's status code;
  \<^verbatim>\<open>JSONResponse(content, status_code)\<close> is the same with its own code.
\<close>

datatype exn = HTTPException nat string | DatabaseError string

datatype json = JStr string | JInt int

datatype response = Json nat "(string \<times> json) list"

text \<open>The HTTP status the caller sees, whichever way the handler produced it.\<close>

fun status_code :: "exn + response \<Rightarrow> nat" where
  "status_code (Inl (HTTPException c _)) = c"
| "status_code (Inl (DatabaseError _)) = 500"
| "status_code (Inr (Json c _)) = c"

subsection \<open>The environment\<close>

text \<open>
  \<open>fault env s\<close> is \<open>Some msg\<close> when the storage call at step \<open>s\<close> of the request raises
  with message \<open>msg\<close>: opening the connection (\<^verbatim>\<open>get_db()\<close>), the n-th
  \<^verbatim>\<open>cur.execute\<close> with its fetch, or \<^verbatim>\<open>conn.commit()\<close>. \<open>new_id env\<close> is the key the
  store's sequence hands to an inserted row, \<open>utcnow env\<close> is \<^verbatim>\<open>datetime.utcnow()\<close>,
  \<open>uuid4 env\<close> is \<^verbatim>\<open>str(uuid.uuid4())\<close>.
\<close>

datatype step = Connect | Execute nat | Commit

record env =
  fault :: "step \<Rightarrow> string option"
  new_id :: int
  utcnow :: instant
  uuid4 :: string

section \<open>Storage gateway\<close>

text \<open>
  \<^verbatim>\<open>with get_db() as conn: ... conn.commit()\<close>. The statements of the block work on the
  transaction's view of the database. psycopg2's connection context manager rolls the
  transaction back when the block raises, so the committed state changes only when the
  block and the commit both return; a commit that raises counts as not committed.
\<close>

definition with_connection ::
  "env \<Rightarrow> (database \<Rightarrow> exn + ('a \<times> database)) \<Rightarrow> database \<Rightarrow> (exn + 'a) \<times> database" where
  "with_connection env body d =
     (case fault env Connect of
        Some msg \<Rightarrow> (Inl (DatabaseError msg), d)
      | None \<Rightarrow>
         (case body d of
            Inl e \<Rightarrow> (Inl e, d)
          | Inr (r, d') \<Rightarrow>
             (case fault env Commit of
                Some msg \<Rightarrow> (Inl (DatabaseError msg), d)
              | None \<Rightarrow> (Inr r, d'))))"

text \<open>The n-th \<^verbatim>\<open>cur.execute(...)\<close> of a request: it raises, or the statement runs.\<close>

definition execute ::
  "env \<Rightarrow> nat \<Rightarrow> (database \<Rightarrow> exn + ('a \<times> database)) \<Rightarrow> database \<Rightarrow> exn + ('a \<times> database)" where
  "execute env n stmt d =
     (case fault env (Execute n) of
        Some msg \<Rightarrow> Inl (DatabaseError msg)
      | None \<Rightarrow> stmt d)"

text \<open>
  \<^verbatim>\<open>except HTTPException: raise\<close> then
  \<^verbatim>\<open>except Exception as e: raise HTTPException(status_code=500, detail=...)\<close>;
  \<open>fmt\<close> builds the detail from \<^verbatim>\<open>str(e)\<close>.
\<close>

definition reraise :: "(string \<Rightarrow> string) \<Rightarrow> exn + 'a \<Rightarrow> exn + 'a" where
  "reraise fmt r =
     (case r of
        Inl (DatabaseError msg) \<Rightarrow> Inl (HTTPException 500 (fmt msg))
      | _ \<Rightarrow> r)"

subsection \<open>Statements\<close>

text \<open>\<^verbatim>\<open>SELECT 1 FROM enquiries WHERE id = %s\<close> followed by \<^verbatim>\<open>cur.fetchone()\<close>.\<close>

definition select_enquiry :: "int \<Rightarrow> database \<Rightarrow> exn + (bool \<times> database)" where
  "select_enquiry i d = Inr (enquiries d i \<noteq> None, d)"

text \<open>\<^verbatim>\<open>DELETE FROM enquiries WHERE id = %s\<close>.\<close>

definition delete_enquiry :: "int \<Rightarrow> database \<Rightarrow> exn + (unit \<times> database)" where
  "delete_enquiry i d = Inr ((), d\<lparr>enquiries := (enquiries d)(i := None)\<rparr>)"

text \<open>\<^verbatim>\<open>SELECT 1 FROM quickcontact WHERE id = %s\<close>.\<close>

definition select_quickcontact_exists :: "int \<Rightarrow> database \<Rightarrow> exn + (bool \<times> database)" where
  "select_quickcontact_exists i d = Inr (quickcontact d i \<noteq> None, d)"

text \<open>\<^verbatim>\<open>SELECT id, name, phone FROM quickcontact WHERE id = %s\<close>.\<close>

definition select_quickcontact ::
  "int \<Rightarrow> database \<Rightarrow> exn + ((int \<times> string \<times> string) option \<times> database)" where
  "select_quickcontact i d =
     Inr (map_option (\<lambda>r. (i, qc_name r, qc_phone r)) (quickcontact d i), d)"

text \<open>\<^verbatim>\<open>DELETE FROM quickcontact WHERE id = %s\<close>.\<close>

definition delete_quickcontact :: "int \<Rightarrow> database \<Rightarrow> exn + (unit \<times> database)" where
  "delete_quickcontact i d = Inr ((), d\<lparr>quickcontact := (quickcontact d)(i := None)\<rparr>)"

text \<open>\<^verbatim>\<open>SELECT 1 FROM active_clients WHERE id = %s\<close>.\<close>

definition select_active_client :: "int \<Rightarrow> database \<Rightarrow> exn + (bool \<times> database)" where
  "select_active_client i d = Inr (active_clients d i \<noteq> None, d)"

text \<open>
  Modelled from the spec: the declaration of table \<^verbatim>\<open>active_clients\<close> is not part of the
  source, and neither \<^verbatim>\<open>INSERT\<close> names the status column. By the specification a row
  created by an approval has status \<^verbatim>\<open>active\<close>, which is then the column's default.
\<close>

definition status_default :: "string option" where
  "status_default = Some ''active''"

text \<open>
  \<^verbatim>\<open>INSERT INTO active_clients (...) VALUES (...)\<close>. The row is stored under the key the
  store assigns; a key already taken violates the primary key and the statement raises.
\<close>

definition insert_active_client ::
  "env \<Rightarrow> active_client_row \<Rightarrow> database \<Rightarrow> exn + (unit \<times> database)" where
  "insert_active_client env row d =
     (if active_clients d (new_id env) \<noteq> None
      then Inl (DatabaseError ''duplicate key value violates unique constraint'')
      else Inr ((), d\<lparr>active_clients := (active_clients d)(new_id env \<mapsto> row)\<rparr>))"

text \<open>\<^verbatim>\<open>UPDATE active_clients SET status='completed' WHERE id = %s\<close>.\<close>

definition update_status_completed :: "int \<Rightarrow> database \<Rightarrow> exn + (unit \<times> database)" where
  "update_status_completed i d =
     Inr ((), d\<lparr>active_clients :=
                 (case active_clients d i of
                    None \<Rightarrow> active_clients d
                  | Some r \<Rightarrow> (active_clients d)(i \<mapsto> r\<lparr>status := Some ''completed''\<rparr>))\<rparr>)"

section \<open>Approval workflow\<close>

subsection \<open>Enquiries\<close>

text \<open>
  \<^verbatim>\<open>deny_enquiry\<close>: existence check, 404 when absent, else the delete; commit.
\<close>

definition deny_enquiry :: "env \<Rightarrow> int \<Rightarrow> database \<Rightarrow> (exn + response) \<times> database" where
  "deny_enquiry env enquiry_id d =
     (let (r, d') = with_connection env (\<lambda>t.
        case execute env 0 (select_enquiry enquiry_id) t of
          Inl e \<Rightarrow> Inl e
        | Inr (found, t0) \<Rightarrow>
            if \<not> found then Inl (HTTPException 404 ''Enquiry not found.'')
            else execute env 1 (delete_enquiry enquiry_id) t0) d
      in (reraise (\<lambda>msg. msg)
            (case r of
               Inl e \<Rightarrow> Inl e
             | Inr _ \<Rightarrow> Inr (Json 200 [(''status'', JStr ''success''),
                                       (''message'', JStr ''Enquiry denied and deleted.'')])),
          d'))"

text \<open>
  The row \<^verbatim>\<open>approve_enquiry\<close> inserts: eight columns, all taken from the request body
  \<^verbatim>\<open>project_data\<close>; the columns the statement does not name get their defaults.
\<close>

definition enquiry_client_row :: "ProjectApproveRequest \<Rightarrow> active_client_row" where
  "enquiry_client_row project_data =
     \<lparr>client_name = pa_name project_data,
      contact_email = pa_email project_data,
      contact_phone = pa_phone project_data,
      project_title = Some (pa_project_title project_data),
      project_description = Some (pa_project_description project_data),
      delivery_date = Some (pa_delivery_date project_data),
      advance_token = Some (pa_billing_details project_data),
      project_manager = Some (pa_project_manager project_data),
      project_reference = None,
      status = status_default\<rparr>"

definition approve_enquiry ::
  "env \<Rightarrow> int \<Rightarrow> ProjectApproveRequest \<Rightarrow> database \<Rightarrow> (exn + response) \<times> database" where
  "approve_enquiry env enquiry_id project_data d =
     (let (r, d') = with_connection env (\<lambda>t.
        case execute env 0 (select_enquiry enquiry_id) t of
          Inl e \<Rightarrow> Inl e
        | Inr (found, t0) \<Rightarrow>
            if \<not> found then Inl (HTTPException 404 ''Enquiry not found.'')
            else
              (case execute env 1 (insert_active_client env (enquiry_client_row project_data)) t0 of
                 Inl e \<Rightarrow> Inl e
               | Inr (_, t1) \<Rightarrow> execute env 2 (delete_enquiry enquiry_id) t1)) d
      in (reraise (\<lambda>msg. ''Database error: '' @ msg)
            (case r of
               Inl e \<Rightarrow> Inl e
             | Inr _ \<Rightarrow> Inr (Json 201 [(''status'', JStr ''success''),
                                       (''message'', JStr ''Enquiry approved and converted to active client.'')])),
          d'))"

subsection \<open>Quick contacts\<close>

definition deny_quickcontact :: "env \<Rightarrow> int \<Rightarrow> database \<Rightarrow> (exn + response) \<times> database" where
  "deny_quickcontact env contact_id d =
     (let (r, d') = with_connection env (\<lambda>t.
        case execute env 0 (select_quickcontact_exists contact_id) t of
          Inl e \<Rightarrow> Inl e
        | Inr (found, t0) \<Rightarrow>
            if \<not> found then Inl (HTTPException 404 ''Quick contact not found.'')
            else execute env 1 (delete_quickcontact contact_id) t0) d
      in (reraise (\<lambda>msg. msg)
            (case r of
               Inl e \<Rightarrow> Inl e
             | Inr _ \<Rightarrow> Inr (Json 200 [(''status'', JStr ''success''),
                                       (''message'', JStr ''Quick contact denied and deleted.'')])),
          d'))"

text \<open>
  The row \<^verbatim>\<open>approve_quickcontact\<close> inserts: name and phone from the row just read
  (\<^verbatim>\<open>contact_info\<close>), the rest from the request body.
\<close>

definition quickcontact_client_row ::
  "(int \<times> string \<times> string) \<Rightarrow> QuickContactApproveRequest \<Rightarrow> active_client_row" where
  "quickcontact_client_row contact_info project_data =
     \<lparr>client_name = Some (fst (snd contact_info)),
      contact_email = None,
      contact_phone = Some (snd (snd contact_info)),
      project_title = Some (qa_project_title project_data),
      project_description = Some (qa_project_description project_data),
      delivery_date = Some (qa_delivery_date project_data),
      advance_token = Some (qa_billing_details project_data),
      project_manager = Some (qa_project_manager project_data),
      project_reference = qa_reference project_data,
      status = status_default\<rparr>"

definition approve_quickcontact ::
  "env \<Rightarrow> int \<Rightarrow> QuickContactApproveRequest \<Rightarrow> database \<Rightarrow> (exn + response) \<times> database" where
  "approve_quickcontact env contact_id project_data d =
     (let (r, d') = with_connection env (\<lambda>t.
        case execute env 0 (select_quickcontact contact_id) t of
          Inl e \<Rightarrow> Inl e
        | Inr (None, t0) \<Rightarrow> Inl (HTTPException 404 ''Quick contact not found.'')
        | Inr (Some contact_info, t0) \<Rightarrow>
            (case execute env 1
                    (insert_active_client env (quickcontact_client_row contact_info project_data)) t0 of
               Inl e \<Rightarrow> Inl e
             | Inr (_, t1) \<Rightarrow> execute env 2 (delete_quickcontact contact_id) t1)) d
      in (reraise (\<lambda>msg. ''Database error: '' @ msg)
            (case r of
               Inl e \<Rightarrow> Inl e
             | Inr _ \<Rightarrow> Inr (Json 201 [(''status'', JStr ''success''),
                                       (''message'', JStr ''Quick contact approved and converted to active client.'')])),
          d'))"

subsection \<open>Active clients\<close>

definition complete_client_project :: "env \<Rightarrow> int \<Rightarrow> database \<Rightarrow> (exn + response) \<times> database" where
  "complete_client_project env client_id d =
     (let (r, d') = with_connection env (\<lambda>t.
        case execute env 0 (select_active_client client_id) t of
          Inl e \<Rightarrow> Inl e
        | Inr (found, t0) \<Rightarrow>
            if \<not> found then Inl (HTTPException 404 ''Client not found.'')
            else execute env 1 (update_status_completed client_id) t0) d
      in (reraise (\<lambda>msg. ''Database error: '' @ msg)
            (case r of
               Inl e \<Rightarrow> Inl e
             | Inr _ \<Rightarrow> Inr (Json 200 [(''status'', JStr ''success''),
                                       (''message'', JStr ''Client project marked as completed.'')])),
          d'))"

section \<open>Session registry\<close>

text \<open>
  \<^verbatim>\<open>active_sessions = {}\<close>: a dictionary from email to
  \<^verbatim>\<open>{"session_id": ..., "expires_at": ...}\<close>. It is process-local state, passed in and
  returned by the three handlers that touch it.
\<close>

record session =
  session_id :: string
  expires_at :: instant

type_synonym active_sessions = "string \<rightharpoonup> session"

definition SESSION_DURATION_MINUTES :: int where
  "SESSION_DURATION_MINUTES = 1080"

text \<open>\<^verbatim>\<open>timedelta(minutes=m)\<close> in microseconds.\<close>

definition timedelta_minutes :: "int \<Rightarrow> int" where
  "timedelta_minutes m = m * 60 * 1000000"

text \<open>\<^verbatim>\<open>SELECT * FROM users WHERE email = %s\<close> followed by \<^verbatim>\<open>cur.fetchone()\<close>.\<close>

definition select_user :: "string \<Rightarrow> database \<Rightarrow> exn + (user_row option \<times> database)" where
  "select_user email d = Inr (find (\<lambda>u. user_email u = email) (users d), d)"

text \<open>
  \<^verbatim>\<open>get_user_by_email\<close>: the whole lookup sits in
  \<^verbatim>\<open>try: ... except Exception: ... return None\<close>, and leaving the \<^verbatim>\<open>with\<close> block
  by \<^verbatim>\<open>return\<close> commits.
\<close>

definition get_user_by_email :: "env \<Rightarrow> string \<Rightarrow> database \<Rightarrow> user_row option" where
  "get_user_by_email env email d =
     (case fst (with_connection env (execute env 0 (select_user email)) d) of
        Inl e \<Rightarrow> None
      | Inr user \<Rightarrow> user)"

definition login ::
  "env \<Rightarrow> LoginRequest \<Rightarrow> database \<Rightarrow> active_sessions \<Rightarrow> (exn + response) \<times> active_sessions" where
  "login env request d sessions =
     (case get_user_by_email env (login_email request) d of
        None \<Rightarrow> (Inl (HTTPException 401 ''Invalid email or password''), sessions)
      | Some user \<Rightarrow>
          if user_password user \<noteq> Some (login_password request)
          then (Inl (HTTPException 401 ''Invalid email or password''), sessions)
          else
            (Inr (Json 200 [(''status'', JStr ''success''),
                            (''name'', JStr (user_email user)),
                            (''user_id'', JInt (user_id user)),
                            (''session_id'', JStr (uuid4 env))]),
             sessions(user_email user \<mapsto>
               \<lparr>session_id = uuid4 env,
                expires_at = utcnow env + timedelta_minutes SESSION_DURATION_MINUTES\<rparr>)))"

text \<open>
  \<^verbatim>\<open>validate_session\<close>. A stored session is a two-key dictionary, so
  \<^verbatim>\<open>not session\<close> holds exactly when \<^verbatim>\<open>active_sessions.get\<close> found nothing.
\<close>

definition validate_session ::
  "env \<Rightarrow> SessionValidationRequest \<Rightarrow> active_sessions \<Rightarrow> (exn + response) \<times> active_sessions" where
  "validate_session env req sessions =
     (if (case sessions (sv_email req) of
            None \<Rightarrow> True
          | Some s \<Rightarrow> session_id s \<noteq> sv_session_id req \<or> expires_at s < utcnow env)
      then (Inr (Json 401 [(''status'', JStr ''invalid'')]), sessions(sv_email req := None))
      else (Inr (Json 200 [(''status'', JStr ''valid'')]), sessions))"

definition user_logout ::
  "SessionValidationRequest \<Rightarrow> active_sessions \<Rightarrow> (exn + response) \<times> active_sessions" where
  "user_logout req sessions =
     (Inr (Json 200 [(''status'', JStr ''logged_out'')]), sessions(sv_email req := None))"

section \<open>Record serializer\<close>

subsection \<open>Values of a row\<close>

text \<open>
  \<^verbatim>\<open>decimal.Decimal\<close> as psycopg2 builds it from a \<^verbatim>\<open>NUMERIC\<close> column: a finite value
  \<open>(-1)\<^sup>s \<sqdot> c \<sqdot> 10\<^sup>x\<close> (sign, coefficient, exponent), an infinity, or the quiet NaN.
  A Python \<^verbatim>\<open>float\<close> is an IEEE 754 binary64: \<open>Float s m e\<close> stands for
  \<open>(-1)\<^sup>s \<sqdot> m \<sqdot> 2\<^sup>e\<close>, next to the infinities and NaN.
\<close>

datatype decimal = Decimal bool nat int | DecimalInfinity bool | DecimalNaN

datatype float64 = Float bool nat int | FloatInf bool | FloatNaN

datatype pyvalue =
    PyNone
  | PyBool bool
  | PyInt int
  | PyStr string
  | PyFloat float64
  | PyDecimal decimal
  | PyDate date
  | PyDatetime datetime
  | PyList "pyvalue list"
  | PyDict "(string \<times> pyvalue) list"

subsection \<open>\<^verbatim>\<open>float(Decimal)\<close>\<close>

text \<open>
  Python converts through the decimal string, and its string-to-float conversion is
  correctly rounded: the binary64 nearest to the exact value, ties to the even
  significand, overflow to infinity. The exact value is the fraction \<open>p / q\<close>.
\<close>

text \<open>The integer nearest to \<open>p / q\<close>, ties to even.\<close>

definition round_half_even :: "nat \<Rightarrow> nat \<Rightarrow> nat" where
  "round_half_even p q =
     (let n = p div q; r = p mod q
      in if 2 * r < q then n
         else if q < 2 * r then n + 1
         else if even n then n else n + 1)"

text \<open>The number of binary digits of \<open>n\<close> (\<^verbatim>\<open>n.bit_length()\<close>).\<close>

fun bit_length :: "nat \<Rightarrow> nat" where
  "bit_length n = (if n = 0 then 0 else Suc (bit_length (n div 2)))"

text \<open>\<open>\<lfloor>log\<^sub>2 (p / q)\<rfloor>\<close> for positive \<open>p\<close> and \<open>q\<close>, from the two bit lengths.\<close>

definition binary_exponent :: "nat \<Rightarrow> nat \<Rightarrow> int" where
  "binary_exponent p q =
     (let b = int (bit_length p) - int (bit_length q)
      in if q * 2 ^ nat b \<le> p * 2 ^ nat (- b) then b else b - 1)"

text \<open>
  Rounding \<open>p / q > 0\<close> to 53 significant bits with exponent at least \<open>-1074\<close>
  (below that the value is subnormal); a significand that rounds up to \<open>2\<^sup>5\<^sup>3\<close> moves
  to the next exponent, and an exponent above 971 is past the largest finite float.
\<close>

definition round_binary64 :: "bool \<Rightarrow> nat \<Rightarrow> nat \<Rightarrow> float64" where
  "round_binary64 s p q =
     (let e = max (binary_exponent p q - 52) (- 1074);
          m = round_half_even (p * 2 ^ nat (- e)) (q * 2 ^ nat e)
      in if m = 0 then Float s 0 0
         else if m = 2 ^ 53 then (if 971 < e + 1 then FloatInf s else Float s (2 ^ 52) (e + 1))
         else if 971 < e then FloatInf s else Float s m e)"

definition float_of_decimal :: "decimal \<Rightarrow> float64" where
  "float_of_decimal v =
     (case v of
        DecimalNaN \<Rightarrow> FloatNaN
      | DecimalInfinity s \<Rightarrow> FloatInf s
      | Decimal s c x \<Rightarrow>
          if c = 0 then Float s 0 0
          else if 0 \<le> x then round_binary64 s (c * 10 ^ nat x) 1
          else round_binary64 s c (10 ^ nat (- x)))"

text \<open>The real number a finite float stands for.\<close>

fun float_value :: "float64 \<Rightarrow> rat option" where
  "float_value (Float s m e) =
     Some ((if s then - 1 else 1) * of_nat m * (if 0 \<le> e then 2 ^ nat e else 1 / 2 ^ nat (- e)))"
| "float_value _ = None"

subsection \<open>\<^verbatim>\<open>isoformat()\<close>\<close>

text \<open>\<^verbatim>\<open>str(n)\<close> for a natural number, and \<^verbatim>\<open>"%0wd" % n\<close>.\<close>

fun digits :: "nat \<Rightarrow> string" where
  "digits n = (if n < 10 then [''0123456789'' ! n] else digits (n div 10) @ [''0123456789'' ! (n mod 10)])"

function zfill :: "nat \<Rightarrow> string \<Rightarrow> string" where
  "zfill w s = (if length s < w then zfill w (CHR ''0'' # s) else s)"
  by pat_completeness auto
termination
  by (relation "measure (\<lambda>(w, s). w - length s)") auto

definition zero_pad :: "nat \<Rightarrow> nat \<Rightarrow> string" where
  "zero_pad w n = zfill w (digits n)"

text \<open>\<^verbatim>\<open>date.isoformat()\<close>: \<^verbatim>\<open>"%04d-%02d-%02d" % (year, month, day)\<close>.\<close>

definition date_isoformat :: "'a date_scheme \<Rightarrow> string" where
  "date_isoformat v = zero_pad 4 (year v) @ ''-'' @ zero_pad 2 (month v) @ ''-'' @ zero_pad 2 (day v)"

text \<open>
  \<^verbatim>\<open>datetime.isoformat()\<close> with its defaults: separator \<^verbatim>\<open>T\<close>, the microseconds only
  when they are not zero, and the UTC offset of an aware value as \<^verbatim>\<open>+HH:MM\<close>, with
  \<^verbatim>\<open>:SS\<close> when the offset has seconds.
\<close>

definition format_offset :: "int option \<Rightarrow> string" where
  "format_offset off =
     (case off of
        None \<Rightarrow> []
      | Some t \<Rightarrow>
          (let a = nat \<bar>t\<bar>
           in (if t < 0 then ''-'' else ''+'') @ zero_pad 2 (a div 3600) @ '':'' @
              zero_pad 2 (a mod 3600 div 60) @
              (if a mod 60 \<noteq> 0 then '':'' @ zero_pad 2 (a mod 60) else [])))"

definition datetime_isoformat :: "datetime \<Rightarrow> string" where
  "datetime_isoformat v =
     date_isoformat v @ ''T'' @
     zero_pad 2 (hour v) @ '':'' @ zero_pad 2 (minute v) @ '':'' @ zero_pad 2 (second v) @
     (if microsecond v \<noteq> 0 then ''.'' @ zero_pad 6 (microsecond v) else []) @
     format_offset (utcoffset v)"

subsection \<open>The serializer\<close>

text \<open>
  \<^verbatim>\<open>_serialize_value\<close>, branch by branch: \<^verbatim>\<open>None\<close>, \<^verbatim>\<open>Decimal\<close>, then
  \<^verbatim>\<open>isinstance(v, (datetime, date))\<close>, else the value itself.
\<close>

fun serialize_value :: "pyvalue \<Rightarrow> pyvalue" where
  "serialize_value PyNone = PyNone"
| "serialize_value (PyDecimal v) = PyFloat (float_of_decimal v)"
| "serialize_value (PyDatetime v) = PyStr (datetime_isoformat v)"
| "serialize_value (PyDate v) = PyStr (date_isoformat v)"
| "serialize_value v = v"

text \<open>
  A dictionary keeps its keys in insertion order: \<^verbatim>\<open>out[k] = v\<close> replaces the value
  of a key that is there and appends a new key at the end.
\<close>

primrec setitem :: "'k \<Rightarrow> 'v \<Rightarrow> ('k \<times> 'v) list \<Rightarrow> ('k \<times> 'v) list" where
  "setitem k v [] = [(k, v)]"
| "setitem k v (p # ps) = (if fst p = k then (k, v) # ps else p # setitem k v ps)"

text \<open>\<^verbatim>\<open>serialize_row_rename_image\<close>: the loop over \<^verbatim>\<open>row.items()\<close>.\<close>

definition serialize_row_rename_image :: "(string \<times> pyvalue) list \<Rightarrow> (string \<times> pyvalue) list" where
  "serialize_row_rename_image row =
     foldl (\<lambda>out (k, v).
              setitem (if k = ''image_url'' then ''imageUrl'' else k) (serialize_value v) out)
           [] row"

section \<open>Outcomes named by the specification\<close>

text \<open>
  The row an approval derives is the one stored under the key the store assigns in this
  request: it exists after the call when that key was free before and is taken after.
\<close>

definition derived_client_exists :: "env \<Rightarrow> database \<Rightarrow> database \<Rightarrow> bool" where
  "derived_client_exists env d d' \<longleftrightarrow>
     active_clients d (new_id env) = None \<and> active_clients d' (new_id env) \<noteq> None"

text \<open>The committed effect of an approval: the source row gone, the derived row there.\<close>

definition enquiry_converted :: "env \<Rightarrow> int \<Rightarrow> ProjectApproveRequest \<Rightarrow> database \<Rightarrow> database" where
  "enquiry_converted env i pd d =
     d\<lparr>enquiries := (enquiries d)(i := None),
       active_clients := (active_clients d)(new_id env \<mapsto> enquiry_client_row pd)\<rparr>"

definition quickcontact_converted ::
  "env \<Rightarrow> int \<Rightarrow> quickcontact_row \<Rightarrow> QuickContactApproveRequest \<Rightarrow> database \<Rightarrow> database" where
  "quickcontact_converted env i c pd d =
     d\<lparr>quickcontact := (quickcontact d)(i := None),
       active_clients := (active_clients d)(new_id env \<mapsto>
          quickcontact_client_row (i, qc_name c, qc_phone c) pd)\<rparr>"

text \<open>The specification's error kinds, as the caller sees them: 404 and 401.\<close>

definition not_found :: "string \<Rightarrow> exn + response" where
  "not_found detail = Inl (HTTPException 404 detail)"

definition unauthorized :: "(exn + response) \<Rightarrow> bool" where
  "unauthorized r \<longleftrightarrow> status_code r = 401"

definition valid_response :: "exn + response" where
  "valid_response = Inr (Json 200 [(''status'', JStr ''valid'')])"

text \<open>No storage call of a three-statement request raises.\<close>

definition storage_up :: "env \<Rightarrow> bool" where
  "storage_up env \<longleftrightarrow>
     fault env Connect = None \<and> fault env (Execute 0) = None \<and> fault env (Execute 1) = None \<and>
     fault env (Execute 2) = None \<and> fault env Commit = None"

text \<open>The token a login response carries, if it carries one.\<close>

definition issued_token :: "(exn + response) \<Rightarrow> string option" where
  "issued_token r =
     (case r of
        Inr (Json c body) \<Rightarrow> (case map_of body ''session_id'' of Some (JStr t) \<Rightarrow> Some t | _ \<Rightarrow> None)
      | Inl e \<Rightarrow> None)"

definition session_lifetime :: int where
  "session_lifetime = timedelta_minutes SESSION_DURATION_MINUTES"

text \<open>The serializer's renaming of field names, and the values it has no rule for.\<close>

definition output_key :: "string \<Rightarrow> string" where
  "output_key k = (if k = ''image_url'' then ''imageUrl'' else k)"

fun passes_through :: "pyvalue \<Rightarrow> bool" where
  "passes_through (PyDecimal _) = False"
| "passes_through (PyDate _) = False"
| "passes_through (PyDatetime _) = False"
| "passes_through _ = True"

section \<open>Example data\<close>

text \<open>A small database, requests and environments at which the theorems are instantiated.\<close>

definition env_ok :: env where
  "env_ok = \<lparr>fault = (\<lambda>_. None), new_id = 7, utcnow = 1000, uuid4 = ''token-1''\<rparr>"

definition env_later :: env where
  "env_later = \<lparr>fault = (\<lambda>_. None), new_id = 8, utcnow = 5000, uuid4 = ''token-2''\<rparr>"

definition env_delete_fails :: env where
  "env_delete_fails = env_ok\<lparr>fault := (\<lambda>_. None)(Execute 2 \<mapsto> ''connection lost'')\<rparr>"

definition env_down :: env where
  "env_down = env_ok\<lparr>fault := (\<lambda>_. None)(Connect \<mapsto> ''could not connect to server'')\<rparr>"

definition alice :: enquiry_row where
  "alice = \<lparr>enq_name = ''Alice'', enq_email = ''alice@example.org'', enq_phone = Some ''555-0100'',
            enq_service = None, enq_budget = ''1000'', enq_timeline = ''2 weeks'', enq_idea = ''shop'',
            enq_description = ''web shop'', enq_reference = None, enq_consent = True\<rparr>"

definition carol :: quickcontact_row where
  "carol = \<lparr>qc_name = ''Carol'', qc_phone = ''555-0199'', qc_subject = None, qc_message = Some ''call me''\<rparr>"

definition db_example :: database where
  "db_example = \<lparr>users = [\<lparr>user_id = 1, user_email = ''admin@example.org'', user_password = Some ''secret''\<rparr>],
                 enquiries = [1 \<mapsto> alice],
                 quickcontact = [5 \<mapsto> carol],
                 active_clients = Map.empty\<rparr>"

definition launch_day :: date where
  "launch_day = \<lparr>year = 2024, month = 1, day = 1\<rparr>"

definition approve_request :: ProjectApproveRequest where
  "approve_request =
     \<lparr>pa_name = Some ''Bob'', pa_email = Some ''bob@example.org'', pa_phone = None,
      pa_service = None, pa_budget = None, pa_timeline = None, pa_idea = None,
      pa_description = None, pa_reference = None, pa_consent = None,
      pa_submitted_at = \<lparr>year = 2023, month = 12, day = 24, hour = 9, minute = 30, second = 0,
                         microsecond = 0, utcoffset = None\<rparr>,
      pa_delivery_date = launch_day, pa_billing_details = ''500 advance'',
      pa_project_title = ''Shop'', pa_project_description = ''A web shop'',
      pa_project_reference = Some ''seen at the fair'', pa_project_manager = ''Dana''\<rparr>"

definition quick_request :: QuickContactApproveRequest where
  "quick_request =
     \<lparr>qa_name = Some ''Mallory'', qa_phone = None, qa_project_title = ''Site'',
      qa_project_description = ''A landing page'', qa_delivery_date = launch_day,
      qa_billing_details = ''200 advance'', qa_project_manager = ''Dana'',
      qa_reference = Some ''friend of Bob''\<rparr>"

definition admin_login :: LoginRequest where
  "admin_login = \<lparr>login_email = ''admin@example.org'', login_password = ''secret''\<rparr>"

definition one_session :: active_sessions where
  "one_session = [''admin@example.org'' \<mapsto> \<lparr>session_id = ''token-1'', expires_at = 2000\<rparr>]"

definition blog_row :: "(string \<times> pyvalue) list" where
  "blog_row = [(''id'', PyInt 1), (''title'', PyStr ''Hello''), (''image_url'', PyStr ''/img/a.png''),
               (''price'', PyDecimal (Decimal False 1250 (- 2))), (''date'', PyDate launch_day),
               (''note'', PyNone)]"

section \<open>Properties of the approval workflow\<close>

lemmas gateway_defs = with_connection_def execute_def reraise_def
  select_enquiry_def delete_enquiry_def select_quickcontact_exists_def select_quickcontact_def
  delete_quickcontact_def select_active_client_def insert_active_client_def update_status_completed_def

text \<open>
  With the source row present, an approval has two outcomes only: a storage fault at any
  step, reported as 500 with the database as it was, or success with both changes made.
\<close>

lemma approve_enquiry_outcome:
  assumes "enquiries d i = Some e"
  shows "(status_code (fst (approve_enquiry env i pd d)) = 500 \<and> snd (approve_enquiry env i pd d) = d) \<or>
     (status_code (fst (approve_enquiry env i pd d)) = 201
      \<and> active_clients d (new_id env) = None
      \<and> snd (approve_enquiry env i pd d) = enquiry_converted env i pd d)"
  using assms
  by (simp add: approve_enquiry_def enquiry_converted_def gateway_defs split: option.splits)

lemma approve_quickcontact_outcome:
  assumes "quickcontact d i = Some c"
  shows "(status_code (fst (approve_quickcontact env i pd d)) = 500 \<and> snd (approve_quickcontact env i pd d) = d) \<or>
     (status_code (fst (approve_quickcontact env i pd d)) = 201
      \<and> active_clients d (new_id env) = None
      \<and> snd (approve_quickcontact env i pd d) = quickcontact_converted env i c pd d)"
  using assms
  by (simp add: approve_quickcontact_def quickcontact_converted_def gateway_defs split: option.splits)

lemma not_derived_unchanged: "\<not> derived_client_exists env d d"
  by (auto simp: derived_client_exists_def)

lemma enquiry_converted_derived:
  "active_clients d (new_id env) = None \<Longrightarrow> derived_client_exists env d (enquiry_converted env i pd d)"
  by (simp add: derived_client_exists_def enquiry_converted_def)

lemma enquiry_converted_source: "enquiries (enquiry_converted env i pd d) i = None"
  by (simp add: enquiry_converted_def)

lemma quickcontact_converted_derived:
  "active_clients d (new_id env) = None \<Longrightarrow>
   derived_client_exists env d (quickcontact_converted env i c pd d)"
  by (simp add: derived_client_exists_def quickcontact_converted_def)

lemma quickcontact_converted_source: "quickcontact (quickcontact_converted env i c pd d) i = None"
  by (simp add: quickcontact_converted_def)

text \<open>
  C1. For a submission that exists (an enquiry or a quick contact), after its approval
  returns, with success or with an error, exactly one of "the source row exists" and
  "the derived active-client row exists" holds. The database is either unchanged or has
  both the insert and the delete; the derived row exists exactly when the call reports
  success (201), and any other outcome leaves the database as it was.
\<close>

theorem approval_atomic:
  "(enquiries d i = Some e \<and> approve_enquiry env i pd d = (r, d') \<longrightarrow>
      ((enquiries d' i \<noteq> None) \<noteq> derived_client_exists env d d') \<and>
      (d' = d \<or> d' = enquiry_converted env i pd d) \<and>
      (status_code r = 201 \<longleftrightarrow> derived_client_exists env d d') \<and>
      (status_code r \<noteq> 201 \<longrightarrow> d' = d)) \<and>
   (quickcontact d j = Some c \<and> approve_quickcontact env j qd d = (r2, d2) \<longrightarrow>
      ((quickcontact d2 j \<noteq> None) \<noteq> derived_client_exists env d d2) \<and>
      (d2 = d \<or> d2 = quickcontact_converted env j c qd d) \<and>
      (status_code r2 = 201 \<longleftrightarrow> derived_client_exists env d d2) \<and>
      (status_code r2 \<noteq> 201 \<longrightarrow> d2 = d))"
proof (intro conjI impI; elim conjE)
  assume src: "enquiries d i = Some e" and run: "approve_enquiry env i pd d = (r, d')"
  from approve_enquiry_outcome [OF src, of env pd] run
  consider (rolled_back) "status_code r = 500" "d' = d"
    | (committed) "status_code r = 201" "active_clients d (new_id env) = None"
        "d' = enquiry_converted env i pd d"
    by auto
  then have "((enquiries d' i \<noteq> None) \<noteq> derived_client_exists env d d') \<and>
      (d' = d \<or> d' = enquiry_converted env i pd d) \<and>
      (status_code r = 201 \<longleftrightarrow> derived_client_exists env d d') \<and>
      (status_code r \<noteq> 201 \<longrightarrow> d' = d)"
  proof cases
    case rolled_back
    then show ?thesis using src by (simp add: not_derived_unchanged)
  next
    case committed
    then show ?thesis
      by (simp add: enquiry_converted_derived enquiry_converted_source)
  qed
  then show "(enquiries d' i \<noteq> None) \<noteq> derived_client_exists env d d'"
    and "d' = d \<or> d' = enquiry_converted env i pd d"
    and "status_code r = 201 \<longleftrightarrow> derived_client_exists env d d'"
    and "status_code r \<noteq> 201 \<Longrightarrow> d' = d"
    by blast+
next
  assume src: "quickcontact d j = Some c" and run: "approve_quickcontact env j qd d = (r2, d2)"
  from approve_quickcontact_outcome [OF src, of env qd] run
  consider (rolled_back) "status_code r2 = 500" "d2 = d"
    | (committed) "status_code r2 = 201" "active_clients d (new_id env) = None"
        "d2 = quickcontact_converted env j c qd d"
    by auto
  then have "((quickcontact d2 j \<noteq> None) \<noteq> derived_client_exists env d d2) \<and>
      (d2 = d \<or> d2 = quickcontact_converted env j c qd d) \<and>
      (status_code r2 = 201 \<longleftrightarrow> derived_client_exists env d d2) \<and>
      (status_code r2 \<noteq> 201 \<longrightarrow> d2 = d)"
  proof cases
    case rolled_back
    then show ?thesis using src by (simp add: not_derived_unchanged)
  next
    case committed
    then show ?thesis
      by (simp add: quickcontact_converted_derived quickcontact_converted_source)
  qed
  then show "(quickcontact d2 j \<noteq> None) \<noteq> derived_client_exists env d d2"
    and "d2 = d \<or> d2 = quickcontact_converted env j c qd d"
    and "status_code r2 = 201 \<longleftrightarrow> derived_client_exists env d d2"
    and "status_code r2 \<noteq> 201 \<Longrightarrow> d2 = d"
    by blast+
qed

theorem approval_atomic_witness:
  "enquiries db_example 1 = Some alice \<and> quickcontact db_example 5 = Some carol \<and>
   status_code (fst (approve_enquiry env_ok 1 approve_request db_example)) = 201 \<and>
   snd (approve_enquiry env_ok 1 approve_request db_example) =
     enquiry_converted env_ok 1 approve_request db_example \<and>
   enquiries (snd (approve_enquiry env_ok 1 approve_request db_example)) 1 = None \<and>
   derived_client_exists env_ok db_example (snd (approve_enquiry env_ok 1 approve_request db_example)) \<and>
   status_code (fst (approve_quickcontact env_delete_fails 5 quick_request db_example)) = 500 \<and>
   snd (approve_quickcontact env_delete_fails 5 quick_request db_example) = db_example \<and>
   \<not> derived_client_exists env_delete_fails db_example
       (snd (approve_quickcontact env_delete_fails 5 quick_request db_example))"
proof -
  let ?run1 = "approve_enquiry env_ok 1 approve_request db_example"
  let ?run2 = "approve_quickcontact env_delete_fails 5 quick_request db_example"
  have src: "enquiries db_example 1 = Some alice" "quickcontact db_example 5 = Some carol"
    by (simp_all add: db_example_def)
  have ok: "status_code (fst ?run1) = 201"
    by (simp add: approve_enquiry_def gateway_defs env_ok_def db_example_def)
  have bad: "status_code (fst ?run2) = 500"
    by (simp add: approve_quickcontact_def gateway_defs env_ok_def env_delete_fails_def db_example_def)
  have "?run1 = (fst ?run1, snd ?run1)" and "?run2 = (fst ?run2, snd ?run2)"
    by simp_all
  with src approval_atomic [of db_example 1 alice env_ok approve_request "fst ?run1" "snd ?run1"]
    approval_atomic [of db_example _ _ env_delete_fails _ _ _ 5 carol quick_request "fst ?run2" "snd ?run2"]
  have "(enquiries (snd ?run1) 1 \<noteq> None) \<noteq> derived_client_exists env_ok db_example (snd ?run1)"
    and "snd ?run1 = db_example \<or> snd ?run1 = enquiry_converted env_ok 1 approve_request db_example"
    and "status_code (fst ?run1) = 201 \<longleftrightarrow> derived_client_exists env_ok db_example (snd ?run1)"
    and "status_code (fst ?run2) \<noteq> 201 \<longrightarrow> snd ?run2 = db_example"
    by blast+
  with ok bad src show ?thesis
    using not_derived_unchanged [of env_ok db_example]
      not_derived_unchanged [of env_delete_fails db_example]
    by auto
qed

text \<open>
  C2, as amended. For an enquiry id that exists, with no storage fault and the assigned
  key free, \<^verbatim>\<open>approve_enquiry\<close> reports success, inserts exactly one active-client row and
  deletes the enquiry row. The inserted row's contact fields (name, email, phone) are the
  ones the caller sent in the request body; the stored enquiry is only checked for
  existence and never read. Title, description, delivery date, advance token (the
  request's billing details) and manager come from the request too, the project
  reference stays empty, and the status is the column default \<^verbatim>\<open>active\<close>.
\<close>

theorem approve_enquiry_row:
  assumes "enquiries d i = Some e" and "storage_up env" and "active_clients d (new_id env) = None"
  shows "approve_enquiry env i pd d =
     (Inr (Json 201 [(''status'', JStr ''success''),
                     (''message'', JStr ''Enquiry approved and converted to active client.'')]),
      d\<lparr>enquiries := (enquiries d)(i := None),
        active_clients := (active_clients d)(new_id env \<mapsto>
          \<lparr>client_name = pa_name pd,
           contact_email = pa_email pd,
           contact_phone = pa_phone pd,
           project_title = Some (pa_project_title pd),
           project_description = Some (pa_project_description pd),
           delivery_date = Some (pa_delivery_date pd),
           advance_token = Some (pa_billing_details pd),
           project_manager = Some (pa_project_manager pd),
           project_reference = None,
           status = Some ''active''\<rparr>)\<rparr>)"
  using assms
  by (simp add: approve_enquiry_def gateway_defs enquiry_client_row_def status_default_def storage_up_def)

theorem approve_enquiry_row_witness:
  "enquiries db_example 1 = Some alice \<and> storage_up env_ok \<and>
   active_clients db_example (new_id env_ok) = None \<and>
   snd (approve_enquiry env_ok 1 approve_request db_example) =
     db_example\<lparr>enquiries := Map.empty,
       active_clients := [7 \<mapsto>
          \<lparr>client_name = Some ''Bob'',
           contact_email = Some ''bob@example.org'',
           contact_phone = None,
           project_title = Some ''Shop'',
           project_description = Some ''A web shop'',
           delivery_date = Some launch_day,
           advance_token = Some ''500 advance'',
           project_manager = Some ''Dana'',
           project_reference = None,
           status = Some ''active''\<rparr>]\<rparr>"
proof -
  have src: "enquiries db_example 1 = Some alice"
    and free: "active_clients db_example (new_id env_ok) = None"
    by (simp_all add: db_example_def)
  have up: "storage_up env_ok"
    by (simp add: storage_up_def env_ok_def)
  have "(enquiries db_example)(1 := None) = Map.empty" "new_id env_ok = 7"
    "active_clients db_example = Map.empty"
    by (simp_all add: db_example_def env_ok_def)
  with approve_enquiry_row [OF src up free, of approve_request] src up free show ?thesis
    by (simp add: approve_request_def)
qed

text \<open>
  The claim as first stated has the contact fields populated from the stored enquiry.
  Enquiry 1 is stored under the name Alice; approved with a request body naming Bob, the
  new row's client name is Bob.
\<close>

theorem approve_enquiry_contact_counterexample:
  "enquiries db_example 1 = Some alice \<and>
   status_code (fst (approve_enquiry env_ok 1 approve_request db_example)) = 201 \<and>
   map_option client_name
     (active_clients (snd (approve_enquiry env_ok 1 approve_request db_example)) (new_id env_ok))
     = Some (Some ''Bob'') \<and>
   map_option client_name
     (active_clients (snd (approve_enquiry env_ok 1 approve_request db_example)) (new_id env_ok))
     \<noteq> Some (Some (enq_name alice))"
  by (simp add: approve_enquiry_def gateway_defs enquiry_client_row_def env_ok_def db_example_def
      alice_def approve_request_def)

text \<open>
  C3. \<^verbatim>\<open>approve_quickcontact\<close> reads the quick contact's row first. When the row is
  absent (and the storage answers the read) it fails with 404 and changes nothing. When
  the row is there, with no storage fault and the assigned key free, it inserts one
  active-client row whose name and phone are the ones just read from storage (not the
  request's), whose project fields are the request's, whose project reference is the
  request's optional reference, and it deletes the quick-contact row.
\<close>

theorem approve_quickcontact_row:
  "(quickcontact d i = None \<and> fault env Connect = None \<and> fault env (Execute 0) = None \<longrightarrow>
      approve_quickcontact env i qd d = (not_found ''Quick contact not found.'', d)) \<and>
   (quickcontact d i = Some c \<and> storage_up env \<and> active_clients d (new_id env) = None \<longrightarrow>
      approve_quickcontact env i qd d =
        (Inr (Json 201 [(''status'', JStr ''success''),
                        (''message'', JStr ''Quick contact approved and converted to active client.'')]),
         d\<lparr>quickcontact := (quickcontact d)(i := None),
           active_clients := (active_clients d)(new_id env \<mapsto>
             \<lparr>client_name = Some (qc_name c),
              contact_email = None,
              contact_phone = Some (qc_phone c),
              project_title = Some (qa_project_title qd),
              project_description = Some (qa_project_description qd),
              delivery_date = Some (qa_delivery_date qd),
              advance_token = Some (qa_billing_details qd),
              project_manager = Some (qa_project_manager qd),
              project_reference = qa_reference qd,
              status = Some ''active''\<rparr>)\<rparr>))"
  by (simp add: approve_quickcontact_def gateway_defs quickcontact_client_row_def status_default_def
      storage_up_def not_found_def)

theorem approve_quickcontact_row_witness:
  "quickcontact db_example 2 = None \<and> quickcontact db_example 5 = Some carol \<and> storage_up env_ok \<and>
   active_clients db_example (new_id env_ok) = None \<and>
   approve_quickcontact env_ok 2 quick_request db_example =
     (not_found ''Quick contact not found.'', db_example) \<and>
   snd (approve_quickcontact env_ok 5 quick_request db_example) =
     db_example\<lparr>quickcontact := Map.empty,
       active_clients := [7 \<mapsto>
          \<lparr>client_name = Some ''Carol'',
           contact_email = None,
           contact_phone = Some ''555-0199'',
           project_title = Some ''Site'',
           project_description = Some ''A landing page'',
           delivery_date = Some launch_day,
           advance_token = Some ''200 advance'',
           project_manager = Some ''Dana'',
           project_reference = Some ''friend of Bob'',
           status = Some ''active''\<rparr>]\<rparr>"
proof -
  have src: "quickcontact db_example 2 = None" "quickcontact db_example 5 = Some carol"
    and free: "active_clients db_example (new_id env_ok) = None"
    by (simp_all add: db_example_def)
  have up: "storage_up env_ok" "fault env_ok Connect = None" "fault env_ok (Execute 0) = None"
    by (simp_all add: storage_up_def env_ok_def)
  have "(quickcontact db_example)(5 := None) = Map.empty" "new_id env_ok = 7"
    "active_clients db_example = Map.empty"
    by (simp_all add: db_example_def env_ok_def)
  with approve_quickcontact_row [of db_example 2 env_ok quick_request]
    approve_quickcontact_row [of db_example 5 env_ok quick_request carol] src up free
  show ?thesis
    by (simp add: quick_request_def carol_def)
qed

text \<open>
  C6. For an id that is not in storage, each of \<^verbatim>\<open>approve_enquiry\<close>, \<^verbatim>\<open>deny_enquiry\<close>,
  \<^verbatim>\<open>approve_quickcontact\<close>, \<^verbatim>\<open>deny_quickcontact\<close> and \<^verbatim>\<open>complete_client_project\<close>
  leaves the database exactly as it was and fails: with 404 whenever the storage answers
  the existence check, and with 500 only when the storage itself raised before that.
\<close>

theorem absent_id_not_found:
  "(enquiries d i = None \<longrightarrow>
      snd (approve_enquiry env i pd d) = d \<and> snd (deny_enquiry env i d) = d \<and>
      status_code (fst (approve_enquiry env i pd d)) \<in> {404, 500} \<and>
      status_code (fst (deny_enquiry env i d)) \<in> {404, 500} \<and>
      (fault env Connect = None \<and> fault env (Execute 0) = None \<longrightarrow>
         fst (approve_enquiry env i pd d) = not_found ''Enquiry not found.'' \<and>
         fst (deny_enquiry env i d) = not_found ''Enquiry not found.'')) \<and>
   (quickcontact d i = None \<longrightarrow>
      snd (approve_quickcontact env i qd d) = d \<and> snd (deny_quickcontact env i d) = d \<and>
      status_code (fst (approve_quickcontact env i qd d)) \<in> {404, 500} \<and>
      status_code (fst (deny_quickcontact env i d)) \<in> {404, 500} \<and>
      (fault env Connect = None \<and> fault env (Execute 0) = None \<longrightarrow>
         fst (approve_quickcontact env i qd d) = not_found ''Quick contact not found.'' \<and>
         fst (deny_quickcontact env i d) = not_found ''Quick contact not found.'')) \<and>
   (active_clients d i = None \<longrightarrow>
      snd (complete_client_project env i d) = d \<and>
      status_code (fst (complete_client_project env i d)) \<in> {404, 500} \<and>
      (fault env Connect = None \<and> fault env (Execute 0) = None \<longrightarrow>
         fst (complete_client_project env i d) = not_found ''Client not found.''))"
proof (intro conjI impI)
  assume "enquiries d i = None"
  then show "snd (approve_enquiry env i pd d) = d"
    by (simp add: approve_enquiry_def gateway_defs split: option.splits)
next
  assume "enquiries d i = None"
  then show "snd (deny_enquiry env i d) = d"
    by (simp add: deny_enquiry_def gateway_defs split: option.splits)
next
  assume "enquiries d i = None"
  then show "status_code (fst (approve_enquiry env i pd d)) \<in> {404, 500}"
    by (simp add: approve_enquiry_def gateway_defs split: option.splits)
next
  assume "enquiries d i = None"
  then show "status_code (fst (deny_enquiry env i d)) \<in> {404, 500}"
    by (simp add: deny_enquiry_def gateway_defs split: option.splits)
next
  assume "enquiries d i = None" "fault env Connect = None \<and> fault env (Execute 0) = None"
  then show "fst (approve_enquiry env i pd d) = not_found ''Enquiry not found.''"
    by (simp add: approve_enquiry_def gateway_defs not_found_def)
next
  assume "enquiries d i = None" "fault env Connect = None \<and> fault env (Execute 0) = None"
  then show "fst (deny_enquiry env i d) = not_found ''Enquiry not found.''"
    by (simp add: deny_enquiry_def gateway_defs not_found_def)
next
  assume "quickcontact d i = None"
  then show "snd (approve_quickcontact env i qd d) = d"
    by (simp add: approve_quickcontact_def gateway_defs split: option.splits)
next
  assume "quickcontact d i = None"
  then show "snd (deny_quickcontact env i d) = d"
    by (simp add: deny_quickcontact_def gateway_defs split: option.splits)
next
  assume "quickcontact d i = None"
  then show "status_code (fst (approve_quickcontact env i qd d)) \<in> {404, 500}"
    by (simp add: approve_quickcontact_def gateway_defs split: option.splits)
next
  assume "quickcontact d i = None"
  then show "status_code (fst (deny_quickcontact env i d)) \<in> {404, 500}"
    by (simp add: deny_quickcontact_def gateway_defs split: option.splits)
next
  assume "quickcontact d i = None" "fault env Connect = None \<and> fault env (Execute 0) = None"
  then show "fst (approve_quickcontact env i qd d) = not_found ''Quick contact not found.''"
    by (simp add: approve_quickcontact_def gateway_defs not_found_def)
next
  assume "quickcontact d i = None" "fault env Connect = None \<and> fault env (Execute 0) = None"
  then show "fst (deny_quickcontact env i d) = not_found ''Quick contact not found.''"
    by (simp add: deny_quickcontact_def gateway_defs not_found_def)
next
  assume "active_clients d i = None"
  then show "snd (complete_client_project env i d) = d"
    by (simp add: complete_client_project_def gateway_defs split: option.splits)
next
  assume "active_clients d i = None"
  then show "status_code (fst (complete_client_project env i d)) \<in> {404, 500}"
    by (simp add: complete_client_project_def gateway_defs split: option.splits)
next
  assume "active_clients d i = None" "fault env Connect = None \<and> fault env (Execute 0) = None"
  then show "fst (complete_client_project env i d) = not_found ''Client not found.''"
    by (simp add: complete_client_project_def gateway_defs not_found_def)
qed

theorem absent_id_not_found_witness:
  "enquiries db_example 2 = None \<and> quickcontact db_example 2 = None \<and>
   active_clients db_example 2 = None \<and>
   fault env_ok Connect = None \<and> fault env_ok (Execute 0) = None \<and>
   approve_enquiry env_ok 2 approve_request db_example = (not_found ''Enquiry not found.'', db_example) \<and>
   deny_enquiry env_ok 2 db_example = (not_found ''Enquiry not found.'', db_example) \<and>
   approve_quickcontact env_ok 2 quick_request db_example = (not_found ''Quick contact not found.'', db_example) \<and>
   deny_quickcontact env_ok 2 db_example = (not_found ''Quick contact not found.'', db_example) \<and>
   complete_client_project env_ok 2 db_example = (not_found ''Client not found.'', db_example)"
proof -
  have absent: "enquiries db_example 2 = None" "quickcontact db_example 2 = None"
    "active_clients db_example 2 = None"
    by (simp_all add: db_example_def)
  have up: "fault env_ok Connect = None" "fault env_ok (Execute 0) = None"
    by (simp_all add: env_ok_def)
  from absent up absent_id_not_found [of db_example 2 env_ok approve_request quick_request]
  show ?thesis
    by (simp add: prod_eq_iff)
qed

text \<open>
  C7. For an enquiry id that exists, a first \<^verbatim>\<open>deny_enquiry\<close> (no storage fault)
  succeeds, deletes the enquiry row and leaves the active clients as they were; a second
  \<^verbatim>\<open>deny_enquiry\<close> on the same id right after it fails with 404 and changes nothing.
\<close>

theorem deny_enquiry_twice:
  assumes "enquiries d i = Some e"
    and "fault env Connect = None" "fault env (Execute 0) = None"
        "fault env (Execute 1) = None" "fault env Commit = None"
    and "fault env' Connect = None" "fault env' (Execute 0) = None"
    and "deny_enquiry env i d = (r, d')"
  shows "r = Inr (Json 200 [(''status'', JStr ''success''),
                            (''message'', JStr ''Enquiry denied and deleted.'')]) \<and>
         d' = d\<lparr>enquiries := (enquiries d)(i := None)\<rparr> \<and>
         enquiries d' i = None \<and>
         active_clients d' = active_clients d \<and>
         deny_enquiry env' i d' = (not_found ''Enquiry not found.'', d')"
proof -
  from assms have r: "r = Inr (Json 200 [(''status'', JStr ''success''),
                            (''message'', JStr ''Enquiry denied and deleted.'')])"
    and d': "d' = d\<lparr>enquiries := (enquiries d)(i := None)\<rparr>"
    by (auto simp: deny_enquiry_def gateway_defs)
  from d' have gone: "enquiries d' i = None" and same: "active_clients d' = active_clients d"
    by simp_all
  from gone assms(6,7) have "deny_enquiry env' i d' = (not_found ''Enquiry not found.'', d')"
    by (simp add: deny_enquiry_def gateway_defs not_found_def)
  with r d' gone same show ?thesis
    by blast
qed

theorem deny_enquiry_twice_witness:
  "enquiries db_example 1 = Some alice \<and>
   fault env_ok Connect = None \<and> fault env_ok (Execute 0) = None \<and>
   fault env_ok (Execute 1) = None \<and> fault env_ok Commit = None \<and>
   status_code (fst (deny_enquiry env_ok 1 db_example)) = 200 \<and>
   enquiries (snd (deny_enquiry env_ok 1 db_example)) 1 = None \<and>
   active_clients (snd (deny_enquiry env_ok 1 db_example)) = active_clients db_example \<and>
   deny_enquiry env_ok 1 (snd (deny_enquiry env_ok 1 db_example)) =
     (not_found ''Enquiry not found.'', snd (deny_enquiry env_ok 1 db_example))"
proof -
  have src: "enquiries db_example 1 = Some alice"
    by (simp add: db_example_def)
  have up: "fault env_ok Connect = None" "fault env_ok (Execute 0) = None"
    "fault env_ok (Execute 1) = None" "fault env_ok Commit = None"
    by (simp_all add: env_ok_def)
  have run: "deny_enquiry env_ok 1 db_example =
     (fst (deny_enquiry env_ok 1 db_example), snd (deny_enquiry env_ok 1 db_example))"
    by simp
  from deny_enquiry_twice [OF src up up(1,2) run]
  have "fst (deny_enquiry env_ok 1 db_example) =
          Inr (Json 200 [(''status'', JStr ''success''),
                         (''message'', JStr ''Enquiry denied and deleted.'')])"
    and "enquiries (snd (deny_enquiry env_ok 1 db_example)) 1 = None"
    and "active_clients (snd (deny_enquiry env_ok 1 db_example)) = active_clients db_example"
    and "deny_enquiry env_ok 1 (snd (deny_enquiry env_ok 1 db_example)) =
          (not_found ''Enquiry not found.'', snd (deny_enquiry env_ok 1 db_example))"
    by blast+
  with src up show ?thesis
    by simp
qed

section \<open>Properties of the session registry\<close>

text \<open>
  C4. \<^verbatim>\<open>validate_session\<close> answers 401 exactly when no session is stored for the email,
  or the stored token differs from the supplied one, or the stored expiry is earlier than
  the current time. Whenever it answers 401 the entry for that email is removed; otherwise
  the answer is "valid" and the session map is unchanged.
\<close>

theorem validate_session_contract:
  "(unauthorized (fst (validate_session env req sessions)) \<longleftrightarrow>
      sessions (sv_email req) = None
      \<or> (\<exists>s. sessions (sv_email req) = Some s \<and> session_id s \<noteq> sv_session_id req)
      \<or> (\<exists>s. sessions (sv_email req) = Some s \<and> expires_at s < utcnow env)) \<and>
   (unauthorized (fst (validate_session env req sessions)) \<longrightarrow>
      snd (validate_session env req sessions) = sessions(sv_email req := None)) \<and>
   (\<not> unauthorized (fst (validate_session env req sessions)) \<longrightarrow>
      validate_session env req sessions = (valid_response, sessions))"
  by (auto simp: validate_session_def unauthorized_def valid_response_def split: option.splits)

theorem validate_session_contract_witness:
  "validate_session env_ok \<lparr>sv_email = ''admin@example.org'', sv_session_id = ''token-1''\<rparr> one_session
     = (valid_response, one_session) \<and>
   unauthorized (fst (validate_session env_ok
      \<lparr>sv_email = ''admin@example.org'', sv_session_id = ''wrong''\<rparr> one_session)) \<and>
   snd (validate_session env_ok
      \<lparr>sv_email = ''admin@example.org'', sv_session_id = ''wrong''\<rparr> one_session) = Map.empty \<and>
   unauthorized (fst (validate_session env_later
      \<lparr>sv_email = ''admin@example.org'', sv_session_id = ''token-1''\<rparr> one_session)) \<and>
   snd (validate_session env_later
      \<lparr>sv_email = ''admin@example.org'', sv_session_id = ''token-1''\<rparr> one_session) = Map.empty \<and>
   unauthorized (fst (validate_session env_ok
      \<lparr>sv_email = ''nobody@example.org'', sv_session_id = ''token-1''\<rparr> one_session))"
proof -
  have "one_session(''admin@example.org'' := None) = Map.empty"
    by (simp add: one_session_def)
  then show ?thesis
    using validate_session_contract [of env_ok
        "\<lparr>sv_email = ''admin@example.org'', sv_session_id = ''token-1''\<rparr>" one_session]
      validate_session_contract [of env_ok
        "\<lparr>sv_email = ''admin@example.org'', sv_session_id = ''wrong''\<rparr>" one_session]
      validate_session_contract [of env_later
        "\<lparr>sv_email = ''admin@example.org'', sv_session_id = ''token-1''\<rparr>" one_session]
      validate_session_contract [of env_ok
        "\<lparr>sv_email = ''nobody@example.org'', sv_session_id = ''token-1''\<rparr>" one_session]
    by (simp add: one_session_def env_ok_def env_later_def)
qed

text \<open>A user row found by email carries that email, so a login writes the entry of the
  email it was asked for; a login that issues a token stores it with the fixed lifetime.\<close>

lemma get_user_by_email_found:
  "get_user_by_email env email d = Some u \<Longrightarrow> user_email u = email"
  by (auto simp: get_user_by_email_def gateway_defs select_user_def find_Some_iff
      split: option.splits sum.splits)

lemma login_issues:
  assumes "login env request d sessions = (r, sessions')" and "issued_token r = Some t"
  shows "t = uuid4 env"
    and "sessions' = sessions(login_email request \<mapsto>
            \<lparr>session_id = t, expires_at = utcnow env + session_lifetime\<rparr>)"
  using assms get_user_by_email_found [of env "login_email request" d]
  by (auto simp: login_def issued_token_def session_lifetime_def split: option.splits if_splits)

lemma login_admin:
  "login env_ok admin_login db_example Map.empty =
     (Inr (Json 200 [(''status'', JStr ''success''), (''name'', JStr ''admin@example.org''),
                     (''user_id'', JInt 1), (''session_id'', JStr ''token-1'')]),
      [''admin@example.org'' \<mapsto> \<lparr>session_id = ''token-1'', expires_at = 64800001000\<rparr>])"
  by (simp add: login_def get_user_by_email_def gateway_defs select_user_def env_ok_def db_example_def
      admin_login_def timedelta_minutes_def SESSION_DURATION_MINUTES_def)

lemma login_admin_later:
  "login env_later admin_login db_example sessions =
     (Inr (Json 200 [(''status'', JStr ''success''), (''name'', JStr ''admin@example.org''),
                     (''user_id'', JInt 1), (''session_id'', JStr ''token-2'')]),
      sessions(''admin@example.org'' \<mapsto> \<lparr>session_id = ''token-2'', expires_at = 64800005000\<rparr>))"
  by (simp add: login_def get_user_by_email_def gateway_defs select_user_def env_later_def db_example_def
      admin_login_def timedelta_minutes_def SESSION_DURATION_MINUTES_def)

text \<open>
  C5. One session per email: when two logins for the same email succeed, issuing token
  \<open>t1\<close> and then a different token \<open>t2\<close>, the second entry replaces the first. On the
  resulting session map, validating \<open>t1\<close> fails with 401, and validating \<open>t2\<close> succeeds
  at any time up to its expiry. (Either validation is taken from the state right after
  the second login: a failed validation removes the entry.)
\<close>

theorem second_login_replaces_first:
  assumes "login env1 req1 d1 s0 = (r1, s1)" and "issued_token r1 = Some t1"
    and "login env2 req2 d2 s1 = (r2, s2)" and "issued_token r2 = Some t2"
    and "login_email req1 = login_email req2" and "t1 \<noteq> t2"
  shows "s1 (login_email req1) = Some \<lparr>session_id = t1, expires_at = utcnow env1 + session_lifetime\<rparr> \<and>
         s2 = s1(login_email req1 \<mapsto> \<lparr>session_id = t2, expires_at = utcnow env2 + session_lifetime\<rparr>) \<and>
         unauthorized (fst (validate_session env3 \<lparr>sv_email = login_email req1, sv_session_id = t1\<rparr> s2)) \<and>
         (utcnow env3 \<le> utcnow env2 + session_lifetime \<longrightarrow>
            validate_session env3 \<lparr>sv_email = login_email req1, sv_session_id = t2\<rparr> s2
              = (valid_response, s2))"
proof -
  from login_issues [OF assms(1,2)]
  have s1: "s1 = s0(login_email req1 \<mapsto> \<lparr>session_id = t1, expires_at = utcnow env1 + session_lifetime\<rparr>)"
    by simp
  from login_issues [OF assms(3,4)] assms(5)
  have s2: "s2 = s1(login_email req1 \<mapsto> \<lparr>session_id = t2, expires_at = utcnow env2 + session_lifetime\<rparr>)"
    by simp
  have "unauthorized (fst (validate_session env3 \<lparr>sv_email = login_email req1, sv_session_id = t1\<rparr> s2))"
    using assms(6) by (simp add: s2 validate_session_def unauthorized_def)
  moreover have "validate_session env3 \<lparr>sv_email = login_email req1, sv_session_id = t2\<rparr> s2
              = (valid_response, s2)" if "utcnow env3 \<le> utcnow env2 + session_lifetime"
    using that by (simp add: s2 validate_session_def valid_response_def)
  ultimately show ?thesis
    using s1 s2 by simp
qed

theorem second_login_replaces_first_witness:
  "issued_token (fst (login env_ok admin_login db_example Map.empty)) = Some ''token-1'' \<and>
   issued_token (fst (login env_later admin_login db_example
       (snd (login env_ok admin_login db_example Map.empty)))) = Some ''token-2'' \<and>
   ''token-1'' \<noteq> ''token-2'' \<and> utcnow env_later \<le> utcnow env_later + session_lifetime \<and>
   unauthorized (fst (validate_session env_later
       \<lparr>sv_email = ''admin@example.org'', sv_session_id = ''token-1''\<rparr>
       (snd (login env_later admin_login db_example (snd (login env_ok admin_login db_example Map.empty)))))) \<and>
   fst (validate_session env_later
       \<lparr>sv_email = ''admin@example.org'', sv_session_id = ''token-2''\<rparr>
       (snd (login env_later admin_login db_example (snd (login env_ok admin_login db_example Map.empty)))))
     = valid_response"
proof -
  let ?first = "login env_ok admin_login db_example Map.empty"
  let ?second = "login env_later admin_login db_example (snd ?first)"
  have t1: "issued_token (fst ?first) = Some ''token-1''"
    by (simp add: login_admin issued_token_def)
  have t2: "issued_token (fst ?second) = Some ''token-2''"
    by (simp add: login_admin_later issued_token_def)
  have live: "utcnow env_later \<le> utcnow env_later + session_lifetime"
    by (simp add: session_lifetime_def timedelta_minutes_def SESSION_DURATION_MINUTES_def)
  have em: "login_email admin_login = ''admin@example.org''"
    by (simp add: admin_login_def)
  have "?first = (fst ?first, snd ?first)" and "?second = (fst ?second, snd ?second)"
    and "login_email admin_login = login_email admin_login" and "''token-1'' \<noteq> ''token-2''"
    by simp_all
  from second_login_replaces_first [OF this(1) t1 this(2) t2 this(3,4), of env_later]
  have "unauthorized (fst (validate_session env_later
          \<lparr>sv_email = login_email admin_login, sv_session_id = ''token-1''\<rparr> (snd ?second)))"
    and "utcnow env_later \<le> utcnow env_later + session_lifetime \<longrightarrow>
         validate_session env_later
          \<lparr>sv_email = login_email admin_login, sv_session_id = ''token-2''\<rparr> (snd ?second)
         = (valid_response, snd ?second)"
    by blast+
  with live t1 t2 show ?thesis
    unfolding em by simp
qed


text \<open>
  C9. \<^verbatim>\<open>user_logout\<close> removes the entry for the email and answers "logged_out" whatever
  token the request carries; the token is never compared. After a login that issued
  token \<open>t\<close>, a logout with any token \<open>x\<close> empties the entry, and validating \<open>t\<close>
  afterwards fails with 401.
\<close>

theorem logout_ignores_token:
  "user_logout \<lparr>sv_email = email, sv_session_id = x\<rparr> sessions =
     (Inr (Json 200 [(''status'', JStr ''logged_out'')]), sessions(email := None)) \<and>
   (login env request d sessions = (r, sessions') \<and> issued_token r = Some t \<longrightarrow>
      sessions' (login_email request) \<noteq> None \<and>
      snd (user_logout \<lparr>sv_email = login_email request, sv_session_id = x\<rparr> sessions')
         (login_email request) = None \<and>
      unauthorized (fst (validate_session env'
         \<lparr>sv_email = login_email request, sv_session_id = t\<rparr>
         (snd (user_logout \<lparr>sv_email = login_email request, sv_session_id = x\<rparr> sessions')))))"
proof (intro conjI impI; (elim conjE)?)
  show "user_logout \<lparr>sv_email = email, sv_session_id = x\<rparr> sessions =
     (Inr (Json 200 [(''status'', JStr ''logged_out'')]), sessions(email := None))"
    by (simp add: user_logout_def)
next
  assume "login env request d sessions = (r, sessions')" and "issued_token r = Some t"
  then show "sessions' (login_email request) \<noteq> None"
    using login_issues(2) by fastforce
next
  show "snd (user_logout \<lparr>sv_email = login_email request, sv_session_id = x\<rparr> sessions')
         (login_email request) = None"
    by (simp add: user_logout_def)
next
  show "unauthorized (fst (validate_session env'
         \<lparr>sv_email = login_email request, sv_session_id = t\<rparr>
         (snd (user_logout \<lparr>sv_email = login_email request, sv_session_id = x\<rparr> sessions'))))"
    by (simp add: user_logout_def validate_session_def unauthorized_def)
qed

theorem logout_ignores_token_witness:
  "issued_token (fst (login env_ok admin_login db_example Map.empty)) = Some ''token-1'' \<and>
   ''not the token'' \<noteq> ''token-1'' \<and>
   snd (login env_ok admin_login db_example Map.empty) ''admin@example.org'' \<noteq> None \<and>
   snd (user_logout \<lparr>sv_email = ''admin@example.org'', sv_session_id = ''not the token''\<rparr>
          (snd (login env_ok admin_login db_example Map.empty))) ''admin@example.org'' = None \<and>
   unauthorized (fst (validate_session env_ok
       \<lparr>sv_email = ''admin@example.org'', sv_session_id = ''token-1''\<rparr>
       (snd (user_logout \<lparr>sv_email = ''admin@example.org'', sv_session_id = ''not the token''\<rparr>
          (snd (login env_ok admin_login db_example Map.empty))))))"
proof -
  let ?first = "login env_ok admin_login db_example Map.empty"
  have t1: "issued_token (fst ?first) = Some ''token-1''"
    by (simp add: login_admin issued_token_def)
  have em: "login_email admin_login = ''admin@example.org''"
    by (simp add: admin_login_def)
  have run: "?first = (fst ?first, snd ?first)"
    by simp
  from logout_ignores_token [where env = env_ok and request = admin_login and d = db_example
      and sessions = Map.empty and r = "fst ?first" and sessions' = "snd ?first"
      and t = "''token-1''" and x = "''not the token''" and env' = env_ok] run t1
  show ?thesis
    unfolding em by simp
qed

text \<open>
  C10. When the user lookup of a login raises in the storage layer (opening the
  connection, the query, or the commit on leaving the block), \<^verbatim>\<open>get_user_by_email\<close>
  returns \<^verbatim>\<open>None\<close> and the login answers 401 with the detail it gives for an unknown
  email or a wrong password, never 500; the session map is unchanged.
\<close>

theorem lookup_fault_is_unauthorized:
  "(fault env Connect \<noteq> None \<or> fault env (Execute 0) \<noteq> None \<or> fault env Commit \<noteq> None \<longrightarrow>
      get_user_by_email env (login_email request) d = None \<and>
      login env request d sessions =
        (Inl (HTTPException 401 ''Invalid email or password''), sessions)) \<and>
   (find (\<lambda>u. user_email u = login_email request) (users d) = None \<longrightarrow>
      login env request d sessions =
        (Inl (HTTPException 401 ''Invalid email or password''), sessions)) \<and>
   (get_user_by_email env (login_email request) d = Some u \<and>
    user_password u \<noteq> Some (login_password request) \<longrightarrow>
      login env request d sessions =
        (Inl (HTTPException 401 ''Invalid email or password''), sessions))"
  by (auto simp: login_def get_user_by_email_def gateway_defs select_user_def split: option.splits)

theorem lookup_fault_is_unauthorized_witness:
  "fault env_down Connect \<noteq> None \<and>
   get_user_by_email env_down ''admin@example.org'' db_example = None \<and>
   login env_down admin_login db_example one_session =
     (Inl (HTTPException 401 ''Invalid email or password''), one_session) \<and>
   status_code (fst (login env_down admin_login db_example one_session)) \<noteq> 500 \<and>
   status_code (fst (login env_ok admin_login db_example one_session)) = 200 \<and>
   find (\<lambda>u. user_email u = ''nobody@example.org'') (users db_example) = None \<and>
   login env_ok \<lparr>login_email = ''nobody@example.org'', login_password = ''secret''\<rparr> db_example one_session =
     (Inl (HTTPException 401 ''Invalid email or password''), one_session)"
proof -
  have down: "fault env_down Connect \<noteq> None"
    by (simp add: env_down_def)
  have em: "login_email admin_login = ''admin@example.org''"
    by (simp add: admin_login_def)
  have ok: "status_code (fst (login env_ok admin_login db_example one_session)) = 200"
    by (simp add: login_def get_user_by_email_def gateway_defs select_user_def env_ok_def
        db_example_def admin_login_def)
  have nobody: "find (\<lambda>u. user_email u = ''nobody@example.org'') (users db_example) = None"
    by (simp add: db_example_def)
  from lookup_fault_is_unauthorized [of env_down admin_login db_example one_session]
    lookup_fault_is_unauthorized [of env_ok
      "\<lparr>login_email = ''nobody@example.org'', login_password = ''secret''\<rparr>" db_example one_session]
    down ok nobody
  show ?thesis
    unfolding em by simp
qed

section \<open>Properties of the record serializer\<close>

text \<open>A key that is not in the dictionary yet is appended.\<close>

lemma setitem_fresh: "k \<notin> fst ` set out \<Longrightarrow> setitem k v out = out @ [(k, v)]"
  by (induction out) auto

text \<open>
  The loop, from any accumulated output: when the renamed keys of the remaining items
  are pairwise different and none is in the output yet, every item is appended in order.
\<close>

lemma serialize_loop:
  "distinct (map (\<lambda>p. output_key (fst p)) row) \<Longrightarrow>
   \<forall>p \<in> set row. output_key (fst p) \<notin> fst ` set acc \<Longrightarrow>
   foldl (\<lambda>out (k, v). setitem (if k = ''image_url'' then ''imageUrl'' else k) (serialize_value v) out) acc row
     = acc @ map (\<lambda>(k, v). (output_key k, serialize_value v)) row"
proof (induction row arbitrary: acc)
  case Nil
  then show ?case by simp
next
  case (Cons p row)
  obtain k v where p: "p = (k, v)" by (cases p)
  let ?acc = "acc @ [(output_key k, serialize_value v)]"
  from Cons.prems p have fresh: "output_key k \<notin> fst ` set acc"
    by simp
  have "\<forall>p' \<in> set row. output_key (fst p') \<notin> fst ` set ?acc"
    using Cons.prems p by (auto simp: image_iff)
  moreover from Cons.prems have "distinct (map (\<lambda>p. output_key (fst p)) row)"
    by simp
  ultimately have "foldl (\<lambda>out (k, v). setitem (if k = ''image_url'' then ''imageUrl'' else k) (serialize_value v) out) ?acc row
     = ?acc @ map (\<lambda>(k, v). (output_key k, serialize_value v)) row"
    by (rule Cons.IH [rotated])
  with fresh p show ?case
    by (simp add: setitem_fresh output_key_def)
qed

lemma output_key_inj:
  "\<not> (''image_url'' \<in> K \<and> ''imageUrl'' \<in> K) \<Longrightarrow> inj_on output_key K"
  by (auto simp: inj_on_def output_key_def split: if_splits)

lemma output_key_distinct:
  assumes "distinct (map fst row)"
    and "\<not> (''image_url'' \<in> set (map fst row) \<and> ''imageUrl'' \<in> set (map fst row))"
  shows "distinct (map (\<lambda>p. output_key (fst p)) row)"
proof -
  from assms(2) have "inj_on output_key (set (map fst row))"
    by (rule output_key_inj)
  with assms(1) have "distinct (map output_key (map fst row))"
    by (simp only: distinct_map simp_thms)
  then show ?thesis by (simp add: comp_def)
qed

lemma serialize_row_rename_image_map:
  assumes "distinct (map fst row)"
    and "\<not> (''image_url'' \<in> set (map fst row) \<and> ''imageUrl'' \<in> set (map fst row))"
  shows "serialize_row_rename_image row = map (\<lambda>(k, v). (output_key k, serialize_value v)) row"
  using serialize_loop [OF output_key_distinct [OF assms], of "[]"]
  by (simp add: serialize_row_rename_image_def)

lemma serialize_value_other: "passes_through v \<Longrightarrow> serialize_value v = v"
  by (cases v) simp_all

lemma example_float:
  "float_of_decimal (Decimal False 1250 (- 2)) = Float False 7036874417766400 (- 49)"
  by (simp add: float_of_decimal_def round_binary64_def binary_exponent_def round_half_even_def Let_def)

lemma example_float_value:
  "float_value (Float False 7036874417766400 (- 49)) = Some (25 / 2)"
  by simp

lemma example_date: "date_isoformat launch_day = ''2024-01-01''"
  by (simp add: launch_day_def date_isoformat_def zero_pad_def)

text \<open>Under the same condition each field is found in the output under its output name,
  with its serialized value.\<close>

lemma serialize_row_rename_image_lookup:
  assumes "distinct (map fst row)"
    and "\<not> (''image_url'' \<in> set (map fst row) \<and> ''imageUrl'' \<in> set (map fst row))"
    and "(k, v) \<in> set row"
  shows "map_of (serialize_row_rename_image row) (output_key k) = Some (serialize_value v)"
proof -
  let ?out = "map (\<lambda>(k, v). (output_key k, serialize_value v)) row"
  have "map fst ?out = map (\<lambda>p. output_key (fst p)) row"
    by (induction row) auto
  with output_key_distinct [OF assms(1,2)] have "distinct (map fst ?out)"
    by (simp only:)
  moreover from assms(3) have "(output_key k, serialize_value v) \<in> set ?out"
    by force
  ultimately have "map_of ?out (output_key k) = Some (serialize_value v)"
    by (rule map_of_is_SomeI)
  then show ?thesis
    by (simp only: serialize_row_rename_image_map [OF assms(1,2)])
qed

text \<open>
  C8. The serializer is a function of the value alone: \<^verbatim>\<open>None\<close> stays \<^verbatim>\<open>None\<close>, a
  decimal becomes the binary64 float nearest to it (12.50 becomes 12.5), a date or a
  datetime becomes its ISO 8601 string (the date 2024-01-01 becomes \<^verbatim>\<open>2024-01-01\<close>),
  and every other value is returned as it is. In a row mapping (distinct field names,
  and no field already named \<^verbatim>\<open>imageUrl\<close> beside \<^verbatim>\<open>image_url\<close>, as in every row of the
  blog query) every field is kept, in order: the field named \<^verbatim>\<open>image_url\<close> appears as
  \<^verbatim>\<open>imageUrl\<close>, every other field under its own name, each with the value the rules above
  give it, which for a value without a rule, such as the URL string, is the identical
  value.
\<close>

theorem serializer_rules:
  "serialize_value PyNone = PyNone \<and>
   serialize_value (PyDecimal x) = PyFloat (float_of_decimal x) \<and>
   serialize_value (PyDate t) = PyStr (date_isoformat t) \<and>
   serialize_value (PyDatetime u) = PyStr (datetime_isoformat u) \<and>
   (passes_through v \<longrightarrow> serialize_value v = v) \<and>
   float_of_decimal (Decimal False 1250 (- 2)) = Float False 7036874417766400 (- 49) \<and>
   float_value (Float False 7036874417766400 (- 49)) = Some (25 / 2) \<and>
   date_isoformat \<lparr>year = 2024, month = 1, day = 1\<rparr> = ''2024-01-01'' \<and>
   (distinct (map fst row) \<and>
    \<not> (''image_url'' \<in> set (map fst row) \<and> ''imageUrl'' \<in> set (map fst row)) \<longrightarrow>
      serialize_row_rename_image row = map (\<lambda>(k, v). (output_key k, serialize_value v)) row \<and>
      (\<forall>(k, w) \<in> set row.
         map_of (serialize_row_rename_image row) (if k = ''image_url'' then ''imageUrl'' else k)
           = Some (serialize_value w)) \<and>
      (\<forall>w. (''image_url'', w) \<in> set row \<and> passes_through w \<longrightarrow>
         map_of (serialize_row_rename_image row) ''imageUrl'' = Some w))"
proof -
  have rows: "serialize_row_rename_image row = map (\<lambda>(k, v). (output_key k, serialize_value v)) row \<and>
      (\<forall>(k, w) \<in> set row.
         map_of (serialize_row_rename_image row) (if k = ''image_url'' then ''imageUrl'' else k)
           = Some (serialize_value w)) \<and>
      (\<forall>w. (''image_url'', w) \<in> set row \<and> passes_through w \<longrightarrow>
         map_of (serialize_row_rename_image row) ''imageUrl'' = Some w)"
    if keys: "distinct (map fst row)"
      "\<not> (''image_url'' \<in> set (map fst row) \<and> ''imageUrl'' \<in> set (map fst row))"
  proof (intro conjI ballI allI impI)
    show "serialize_row_rename_image row = map (\<lambda>(k, v). (output_key k, serialize_value v)) row"
      using keys by (rule serialize_row_rename_image_map)
  next
    fix p assume "p \<in> set row"
    then show "case p of (k, w) \<Rightarrow>
         map_of (serialize_row_rename_image row) (if k = ''image_url'' then ''imageUrl'' else k)
           = Some (serialize_value w)"
      using serialize_row_rename_image_lookup [OF keys, of "fst p" "snd p"]
      by (simp add: case_prod_beta output_key_def)
  next
    fix w assume "(''image_url'', w) \<in> set row \<and> passes_through w"
    then show "map_of (serialize_row_rename_image row) ''imageUrl'' = Some w"
      using serialize_row_rename_image_lookup [OF keys, of "''image_url''" w]
        serialize_value_other [of w]
      by (simp add: output_key_def)
  qed
  have "date_isoformat \<lparr>year = 2024, month = 1, day = 1\<rparr> = ''2024-01-01''"
    using example_date by (simp only: launch_day_def)
  moreover have "passes_through v \<longrightarrow> serialize_value v = v"
    using serialize_value_other [of v] by blast
  moreover have "serialize_value PyNone = PyNone"
    and "serialize_value (PyDecimal x) = PyFloat (float_of_decimal x)"
    and "serialize_value (PyDate t) = PyStr (date_isoformat t)"
    and "serialize_value (PyDatetime u) = PyStr (datetime_isoformat u)"
    by simp_all
  ultimately show ?thesis
    using example_float example_float_value rows by blast
qed

theorem serializer_rules_witness:
  "distinct (map fst blog_row) \<and>
   \<not> (''image_url'' \<in> set (map fst blog_row) \<and> ''imageUrl'' \<in> set (map fst blog_row)) \<and>
   passes_through (PyStr ''Hello'') \<and>
   (''image_url'', PyStr ''/img/a.png'') \<in> set blog_row \<and> passes_through (PyStr ''/img/a.png'') \<and>
   map_of (serialize_row_rename_image blog_row) ''imageUrl'' = Some (PyStr ''/img/a.png'') \<and>
   serialize_row_rename_image blog_row =
     [(''id'', PyInt 1), (''title'', PyStr ''Hello''), (''imageUrl'', PyStr ''/img/a.png''),
      (''price'', PyFloat (Float False 7036874417766400 (- 49))), (''date'', PyStr ''2024-01-01''),
      (''note'', PyNone)]"
proof -
  have keys: "distinct (map fst blog_row)"
    "\<not> (''image_url'' \<in> set (map fst blog_row) \<and> ''imageUrl'' \<in> set (map fst blog_row))"
    by (simp_all add: blog_row_def)
  have url: "(''image_url'', PyStr ''/img/a.png'') \<in> set blog_row" "passes_through (PyStr ''/img/a.png'')"
    by (simp_all add: blog_row_def)
  note rules = serializer_rules [of "Decimal False 1250 (- 2)" launch_day _ "PyStr ''Hello''" blog_row]
  from rules keys
  have "serialize_row_rename_image blog_row = map (\<lambda>(k, v). (output_key k, serialize_value v)) blog_row"
    by blast
  moreover from rules keys url
  have "map_of (serialize_row_rename_image blog_row) ''imageUrl'' = Some (PyStr ''/img/a.png'')"
    by blast
  moreover from rules have "date_isoformat launch_day = ''2024-01-01''"
    by (simp add: launch_day_def)
  moreover from rules
  have "float_of_decimal (Decimal False 1250 (- 2)) = Float False 7036874417766400 (- 49)"
    by blast
  ultimately show ?thesis
    using keys url by (simp add: blog_row_def output_key_def)
qed

end
